theory Spec2Isabelle
  imports Complex_Main "HOL-Library.Product_Lexorder" "HOL-Library.Multiset"
begin

section \<open>Values exchanged with clients\<close>

text \<open>
  \<open>websocket.receive_json()\<close> yields whatever Python's \<open>json.loads\<close> builds: \<open>None\<close>,
  a bool, an int, a float, a str, a list or a dict. Floats only matter here through their
  truth value, so a float is a rational or one of the three special values that
  \<open>json.loads\<close> accepts. A dict is an association list read with \<open>map_of\<close>.
\<close>

datatype pyfloat = Finite rat | PosInf | NegInf | NaN

datatype json =
    JNull
  | JBool bool
  | JInt int
  | JFloat pyfloat
  | JStr string
  | JArr "json list"
  | JObj "(string \<times> json) list"

text \<open>Python's truth value of an object, as \<open>not content\<close> tests it (main.py, line 69).\<close>

fun py_truthy :: "json \<Rightarrow> bool" where
  "py_truthy JNull = False"
| "py_truthy (JBool b) = b"
| "py_truthy (JInt i) = (i \<noteq> 0)"
| "py_truthy (JFloat f) = (f \<noteq> Finite 0)"
| "py_truthy (JStr s) = (s \<noteq> [])"
| "py_truthy (JArr xs) = (xs \<noteq> [])"
| "py_truthy (JObj kvs) = (kvs \<noteq> [])"

text \<open>The exceptions that can leave the body of the receive loop.\<close>

datatype exn =
    WebSocketDisconnect
  | JSONDecodeError
  | AttributeError
  | IntegrityError
  | DataError
  | OperationalError

text \<open>
  One inbound frame: a text frame holding a JSON document, a frame that is not a JSON
  document, or the close of the connection. \<open>receive_json\<close> raises on the last two.
\<close>

datatype frame = Text json | Malformed | Close

fun receive_json :: "frame \<Rightarrow> exn + json" where
  "receive_json (Text j) = Inr j"
| "receive_json Malformed = Inl JSONDecodeError"
| "receive_json Close = Inl WebSocketDisconnect"

text \<open>
  \<open>data.get(key, default)\<close>: only a dict has the method; on every other value the
  attribute lookup raises.
\<close>

fun dict_get :: "json \<Rightarrow> string \<Rightarrow> json \<Rightarrow> exn + json" where
  "dict_get (JObj kvs) k d = Inr (case map_of kvs k of None \<Rightarrow> d | Some v \<Rightarrow> v)"
| "dict_get _ k d = Inl AttributeError"

section \<open>Timestamps\<close>

text \<open>
  A naive \<open>datetime\<close>, as \<open>datetime.utcnow\<close> returns it. Rows are ordered by it
  chronologically, which is the lexicographic order of the fields.
\<close>

record datetime =
  year :: nat
  month :: nat
  day :: nat
  hour :: nat
  minute :: nat
  second :: nat
  microsecond :: nat

definition dt_key :: "datetime \<Rightarrow> nat \<times> nat \<times> nat \<times> nat \<times> nat \<times> nat \<times> nat" where
  "dt_key t = (year t, month t, day t, hour t, minute t, second t, microsecond t)"

text \<open>The field ranges of a \<open>datetime\<close> object (the per-month limit of the day is not needed).\<close>

definition datetime_fields_ok :: "datetime \<Rightarrow> bool" where
  "datetime_fields_ok t =
     (1 \<le> year t \<and> year t \<le> 9999 \<and> 1 \<le> month t \<and> month t \<le> 12 \<and>
      1 \<le> day t \<and> day t \<le> 31 \<and> hour t < 24 \<and> minute t < 60 \<and> second t < 60 \<and>
      microsecond t < 1000000)"

definition digit_char :: "nat \<Rightarrow> char" where
  "digit_char n = ''0123456789'' ! n"

text \<open>The decimal digits of a number, and Python's \<open>"%0wd"\<close>: at least \<open>w\<close> digits.\<close>

function dec :: "nat \<Rightarrow> string" where
  "dec n = (if n < 10 then [digit_char n] else dec (n div 10) @ [digit_char (n mod 10)])"
  by pat_completeness auto
termination
  by (relation "measure (\<lambda>n. n)") auto

definition zero_pad :: "nat \<Rightarrow> nat \<Rightarrow> string" where
  "zero_pad w n = replicate (w - length (dec n)) (CHR ''0'') @ dec n"

text \<open>
  \<open>datetime.isoformat()\<close>: \<open>YYYY-MM-DDTHH:MM:SS\<close>, followed by \<open>.ffffff\<close> when the
  microsecond is not zero.
\<close>

definition isoformat :: "datetime \<Rightarrow> string" where
  "isoformat t =
     zero_pad 4 (year t) @ ''-'' @ zero_pad 2 (month t) @ ''-'' @ zero_pad 2 (day t) @ ''T'' @
     zero_pad 2 (hour t) @ '':'' @ zero_pad 2 (minute t) @ '':'' @ zero_pad 2 (second t) @
     (if microsecond t = 0 then [] else ''.'' @ zero_pad 6 (microsecond t))"

text \<open>
  A recogniser of that lexical shape of an ISO-8601 timestamp: it consumes a fixed
  number of digits or one given character at a time.
\<close>

definition is_digit :: "char \<Rightarrow> bool" where
  "is_digit c = (c \<in> set ''0123456789'')"

fun eat_digits :: "nat \<Rightarrow> string \<Rightarrow> string option" where
  "eat_digits 0 s = Some s"
| "eat_digits (Suc k) [] = None"
| "eat_digits (Suc k) (c # s) = (if is_digit c then eat_digits k s else None)"

fun eat_char :: "char \<Rightarrow> string \<Rightarrow> string option" where
  "eat_char c [] = None"
| "eat_char c (d # s) = (if c = d then Some s else None)"

definition eat_date_time :: "string \<Rightarrow> string option" where
  "eat_date_time s =
     Option.bind (Option.bind (Option.bind (Option.bind (Option.bind (Option.bind
     (Option.bind (Option.bind (Option.bind (Option.bind (eat_digits 4 s)
       (eat_char (CHR ''-''))) (eat_digits 2)) (eat_char (CHR ''-''))) (eat_digits 2))
       (eat_char (CHR ''T''))) (eat_digits 2)) (eat_char (CHR '':''))) (eat_digits 2))
       (eat_char (CHR '':''))) (eat_digits 2)"

definition is_iso8601 :: "string \<Rightarrow> bool" where
  "is_iso8601 s =
     (case eat_date_time s of
        None \<Rightarrow> False
      | Some r \<Rightarrow> r = [] \<or> Option.bind (eat_char (CHR ''.'') r) (eat_digits 6) = Some [])"

section \<open>The Message model and its table\<close>

text \<open>
  A row of the table \<open>messages\<close> (models/message.py). The field \<open>msg_id\<close> is the column
  \<open>id\<close>.
\<close>

record Message =
  msg_id :: int
  username :: string
  content :: string
  created_at :: datetime

text \<open>\<open>Message.to_dict\<close>: the four keys, in the order of the source.\<close>

definition to_dict :: "Message \<Rightarrow> json" where
  "to_dict m = JObj
     [(''id'', JInt (msg_id m)),
      (''username'', JStr (username m)),
      (''content'', JStr (content m)),
      (''created_at'', JStr (isoformat (created_at m)))]"

text \<open>
  The types of the two text columns, \<open>String(100)\<close> and \<open>Text\<close>, as declared once in
  the model class and once in the migration that creates the table. Both columns are
  declared \<open>nullable=False\<close> in both places.
\<close>

datatype coltype = String nat | Text_col

definition Message_username :: coltype where
  "Message_username = String 100"

definition Message_content :: coltype where
  "Message_content = Text_col"

definition upgrade_username :: coltype where
  "upgrade_username = String 100"

definition upgrade_content :: coltype where
  "upgrade_content = Text_col"

text \<open>
  What the storage layer does with a value bound to a text column that is not
  nullable. The database of database.py is PostgreSQL through asyncpg: \<open>None\<close> violates
  \<open>NOT NULL\<close>; a value that is not a str is refused by the driver; a str longer than the
  declared length is refused unless the excess is all spaces, and is then cut to the
  declared length.
\<close>

fun store_value :: "coltype \<Rightarrow> json \<Rightarrow> exn + string" where
  "store_value ty JNull = Inl IntegrityError"
| "store_value ty (JStr s) =
     (case ty of
        Text_col \<Rightarrow> Inr s
      | String n \<Rightarrow>
          if length s \<le> n then Inr s
          else if list_all (\<lambda>c. c = CHR '' '') (drop n s) then Inr (take n s)
          else Inl DataError)"
| "store_value ty _ = Inl DataError"

text \<open>
  The table: its rows in insertion order and the next value of the sequence behind the
  autoincrement primary key, an SQL \<open>Integer\<close>.
\<close>

record store =
  rows :: "Message list"
  next_id :: int

definition empty_store :: store where
  "empty_store = \<lparr>rows = [], next_id = 1\<rparr>"

definition INT_MAX :: int where
  "INT_MAX = 2147483647"

text \<open>
  A connection handle stands for one \<open>WebSocket\<close> object. What the surroundings decide
  for one pass of the loop body: the reading of the clock by \<open>datetime.utcnow\<close>, whether
  the database carries the commit out, whether it then answers the refresh, whether a
  failed insert has used up a value of the sequence, and the handles on which a delivery
  fails.
\<close>

type_synonym handle = nat

record env =
  now :: datetime
  db_ok :: bool
  refresh_ok :: bool
  seq_consumed :: bool
  broken :: "handle list"

text \<open>
  Lines 73 to 79 of main.py: \<open>Message(username=..., content=...)\<close>, \<open>db.add\<close>,
  \<open>db.commit\<close>, \<open>db.refresh\<close>. The client's values are bound as they are; the id comes
  from the sequence and the timestamp from the clock. When the commit fails no row is
  added. When the commit succeeds the row is in the table, and the refreshed row is
  returned unless the refresh itself fails.
\<close>

definition failed_insert :: "env \<Rightarrow> store \<Rightarrow> store" where
  "failed_insert e s = (if seq_consumed e then s\<lparr>next_id := next_id s + 1\<rparr> else s)"

definition db_add_commit_refresh :: "env \<Rightarrow> json \<Rightarrow> json \<Rightarrow> store \<Rightarrow> (exn + Message) \<times> store" where
  "db_add_commit_refresh e u c s =
     (case store_value upgrade_username u of
        Inl x \<Rightarrow> (Inl x, failed_insert e s)
      | Inr us \<Rightarrow>
         (case store_value upgrade_content c of
            Inl x \<Rightarrow> (Inl x, failed_insert e s)
          | Inr cs \<Rightarrow>
              if \<not> db_ok e then (Inl OperationalError, failed_insert e s)
              else if next_id s > INT_MAX then (Inl DataError, s)
              else
                (let m = \<lparr>msg_id = next_id s, username = us, content = cs, created_at = now e\<rparr>;
                     s' = \<lparr>rows = rows s @ [m], next_id = next_id s + 1\<rparr>
                 in if refresh_ok e then (Inr m, s') else (Inl OperationalError, s'))))"

section \<open>The connection manager\<close>

text \<open>
  The state shared by all sessions: the table, the registry of connected handles and,
  to speak about deliveries, the log of every delivery attempt with its payload and
  whether it succeeded.
\<close>

record world =
  db :: store
  active_connections :: "handle list"
  deliveries :: "(handle \<times> json \<times> bool) list"

definition initial_world :: world where
  "initial_world = \<lparr>db = empty_store, active_connections = [], deliveries = []\<rparr>"

text \<open>
  Modelled from the spec: \<open>manager.connect\<close> of app/websocket_manager.py, which is not
  among the sources. Section 4.1: add inserts the handle, and is a no-op when the handle
  is already present.
\<close>

definition connect :: "handle \<Rightarrow> world \<Rightarrow> world" where
  "connect h w =
     (if h \<in> set (active_connections w) then w
      else w\<lparr>active_connections := active_connections w @ [h]\<rparr>)"

text \<open>
  Modelled from the spec: \<open>manager.disconnect\<close> of app/websocket_manager.py. Section 4.1:
  remove takes the handle out if present and is a silent no-op otherwise.
\<close>

definition disconnect :: "handle \<Rightarrow> world \<Rightarrow> world" where
  "disconnect h w = w\<lparr>active_connections := removeAll h (active_connections w)\<rparr>"

text \<open>
  Modelled from the spec: \<open>manager.broadcast\<close> of app/websocket_manager.py. Section 4.2,
  steps 4 and 5: a snapshot of the registry is taken; the payload is offered to each
  handle of the snapshot in turn; a failed delivery removes that handle from the
  registry and the pass goes on; the call itself returns normally.
\<close>

fun deliver_all :: "handle list \<Rightarrow> json \<Rightarrow> handle list \<Rightarrow> world \<Rightarrow> world" where
  "deliver_all bad p [] w = w"
| "deliver_all bad p (h # hs) w =
     deliver_all bad p hs
       (if h \<in> set bad
        then (disconnect h w)\<lparr>deliveries := deliveries w @ [(h, p, False)]\<rparr>
        else w\<lparr>deliveries := deliveries w @ [(h, p, True)]\<rparr>)"

definition broadcast :: "handle list \<Rightarrow> json \<Rightarrow> world \<Rightarrow> world" where
  "broadcast bad p w = deliver_all bad p (active_connections w) w"

section \<open>The WebSocket endpoint\<close>

text \<open>
  One pass of the body of \<open>while True\<close> (main.py, lines 61 to 84) ends in one of three
  ways: at \<open>continue\<close> (line 70), after the broadcast (line 84), or with an exception.
\<close>

datatype outcome = Skipped | Broadcast Message | Raised exn

definition loop_body :: "env \<Rightarrow> frame \<Rightarrow> world \<Rightarrow> outcome \<times> world" where
  "loop_body e f w =
     (case receive_json f of
        Inl x \<Rightarrow> (Raised x, w)
      | Inr data \<Rightarrow>
         (case dict_get data ''username'' (JStr ''Anonymous'') of
            Inl x \<Rightarrow> (Raised x, w)
          | Inr u \<Rightarrow>
             (case dict_get data ''content'' (JStr []) of
                Inl x \<Rightarrow> (Raised x, w)
              | Inr c \<Rightarrow>
                  if \<not> py_truthy c then (Skipped, w)
                  else
                    (case db_add_commit_refresh e u c (db w) of
                       (Inl x, s) \<Rightarrow> (Raised x, w\<lparr>db := s\<rparr>)
                     | (Inr m, s) \<Rightarrow>
                         (Broadcast m, broadcast (broken e) (to_dict m) (w\<lparr>db := s\<rparr>))))))"

text \<open>
  The loop over the frames that arrive on one connection, each with what the
  surroundings decide for it. Both \<open>except\<close> clauses deregister the handle and end the
  session. When the frames received so far are used up the session is still waiting.
\<close>

datatype status = Active | Closed

fun session_loop :: "handle \<Rightarrow> (env \<times> frame) list \<Rightarrow> world \<Rightarrow> status \<times> world" where
  "session_loop h [] w = (Active, w)"
| "session_loop h ((e, f) # evs) w =
     (case loop_body e f w of
        (Raised x, w') \<Rightarrow> (Closed, disconnect h w')
      | (Skipped, w') \<Rightarrow> session_loop h evs w'
      | (Broadcast m, w') \<Rightarrow> session_loop h evs w')"


section \<open>The history endpoint\<close>

text \<open>
  \<open>get_messages\<close>: \<open>select(Message).order_by(Message.created_at.asc())\<close>, every row through
  \<open>to_dict\<close>. The query reads; the table is handed back as it was. Rows with equal
  timestamps come in insertion order here, an order SQL leaves open.
\<close>

definition select_ordered :: "store \<Rightarrow> Message list" where
  "select_ordered s = sort_key (\<lambda>m. dt_key (created_at m)) (rows s)"

definition get_messages :: "store \<Rightarrow> json list \<times> store" where
  "get_messages s = (map to_dict (select_ordered s), s)"

section \<open>Persistence calls in sequence\<close>

text \<open>
  Every session reaches the table through lines 73 to 79 only. The calls, in the order in
  which the database serves them, whichever session makes them, and whether they succeed
  or not:
\<close>

fun persist_calls :: "(env \<times> json \<times> json) list \<Rightarrow> store \<Rightarrow> store" where
  "persist_calls [] s = s"
| "persist_calls ((e, u, c) # cs) s = persist_calls cs (snd (db_add_commit_refresh e u c s))"

text \<open>
  The invariant of the table: along the rows the ids strictly increase, and all of them
  are below the next value of the sequence.
\<close>

definition store_inv :: "store \<Rightarrow> bool" where
  "store_inv s =
     (sorted_wrt (<) (map msg_id (rows s)) \<and> list_all (\<lambda>m. msg_id m < next_id s) (rows s))"

section \<open>A sample run\<close>

text \<open>
  A clock reading, surroundings in which nothing fails, surroundings in which the
  database is down, and the world in which client 0 has just connected: the concrete
  inputs of the instances below.
\<close>

definition t0 :: datetime where
  "t0 = \<lparr>year = 2026, month = 2, day = 15, hour = 15, minute = 32, second = 7, microsecond = 132806\<rparr>"

definition env_ok :: env where
  "env_ok = \<lparr>now = t0, db_ok = True, refresh_ok = True, seq_consumed = False, broken = []\<rparr>"

definition env_down :: env where
  "env_down = \<lparr>now = t0, db_ok = False, refresh_ok = False, seq_consumed = False, broken = []\<rparr>"

definition one_client :: world where
  "one_client = connect 0 initial_world"

text \<open>Three persistence calls, the second one while the database is down.\<close>

definition sample_calls :: "(env \<times> json \<times> json) list" where
  "sample_calls =
     [(env_ok, JStr ''alice'', JStr ''hi''),
      (env_down, JStr ''bob'', JStr ''lost''),
      (env_ok, JStr ''bob'', JStr ''yo'')]"

section \<open>Auxiliary facts\<close>

declare dec.simps [simp del]

lemma is_digit_digit_char: "k < 10 \<Longrightarrow> is_digit (digit_char k)"
proof -
  assume "k < 10"
  then have "k \<in> {0,1,2,3,4,5,6,7,8,9}" by auto
  then show ?thesis by (auto simp: is_digit_def digit_char_def)
qed

lemma dec_digits: "list_all is_digit (dec n)"
proof (induction n rule: dec.induct)
  case (1 n)
  show ?case
  proof (cases "n < 10")
    case True
    then show ?thesis by (subst dec.simps) (simp add: is_digit_digit_char)
  next
    case False
    with 1 show ?thesis by (subst dec.simps) (simp add: is_digit_digit_char)
  qed
qed

lemma dec_length: "0 < k \<Longrightarrow> n < 10 ^ k \<Longrightarrow> length (dec n) \<le> k"
proof (induction n arbitrary: k rule: dec.induct)
  case (1 n)
  show ?case
  proof (cases "n < 10")
    case True
    with 1(2) show ?thesis by (subst dec.simps) simp
  next
    case False
    obtain j where k: "k = Suc j" using 1(2) by (cases k) auto
    have "j \<noteq> 0" using False 1(3) k by (cases j) auto
    moreover have "n div 10 < 10 ^ j" using 1(3) k by (simp add: less_mult_imp_div_less mult.commute)
    ultimately have "length (dec (n div 10)) \<le> j" using 1(1)[OF False, of j] by simp
    then show ?thesis using False k by (subst dec.simps) simp
  qed
qed

lemma zero_pad_digits: "list_all is_digit (zero_pad w n)"
proof -
  have "list_all is_digit (replicate k (CHR ''0''))" for k
    by (induction k) (simp_all add: is_digit_def)
  then show ?thesis by (simp add: zero_pad_def dec_digits)
qed

lemma zero_pad_length: "0 < w \<Longrightarrow> n < 10 ^ w \<Longrightarrow> length (zero_pad w n) = w"
  using dec_length [of w n] by (simp add: zero_pad_def)

lemma eat_digits_append:
  "length p = k \<Longrightarrow> list_all is_digit p \<Longrightarrow> eat_digits k (p @ r) = Some r"
  by (induction k p rule: eat_digits.induct) auto

lemma eat_zero_pad: "0 < w \<Longrightarrow> n < 10 ^ w \<Longrightarrow> eat_digits w (zero_pad w n @ r) = Some r"
  by (rule eat_digits_append) (simp_all add: zero_pad_length zero_pad_digits)

lemma eat_zero_pad_end: "0 < w \<Longrightarrow> n < 10 ^ w \<Longrightarrow> eat_digits w (zero_pad w n) = Some []"
  using eat_zero_pad [of w n "[]"] by simp

lemma isoformat_iso8601: "datetime_fields_ok t \<Longrightarrow> is_iso8601 (isoformat t)"
  unfolding datetime_fields_ok_def is_iso8601_def eat_date_time_def isoformat_def
  by (simp add: eat_zero_pad eat_zero_pad_end)


lemma one_client_eq:
  "one_client = \<lparr>db = \<lparr>rows = [], next_id = 1\<rparr>, active_connections = [0], deliveries = []\<rparr>"
  by (simp add: one_client_def connect_def initial_world_def empty_store_def)

lemma deliveries_deliver_all:
  "deliveries (deliver_all bad p hs w) = deliveries w @ map (\<lambda>h. (h, p, h \<notin> set bad)) hs"
  by (induction hs arbitrary: w) (auto simp: disconnect_def)

lemma db_deliver_all: "db (deliver_all bad p hs w) = db w"
  by (induction hs arbitrary: w) (auto simp: disconnect_def)

lemma active_deliver_all:
  "active_connections (deliver_all bad p hs w) =
     filter (\<lambda>h. \<not> (h \<in> set hs \<and> h \<in> set bad)) (active_connections w)"
proof (induction hs arbitrary: w)
  case Nil
  then show ?case by simp
next
  case (Cons h hs)
  show ?case
  proof (cases "h \<in> set bad")
    case True
    then show ?thesis
      by (simp add: Cons.IH disconnect_def removeAll_filter_not_eq) (rule filter_cong, auto)
  next
    case False
    then show ?thesis
      by (simp add: Cons.IH) (rule filter_cong, auto)
  qed
qed

lemma deliveries_broadcast:
  "deliveries (broadcast bad p w) =
     deliveries w @ map (\<lambda>h. (h, p, h \<notin> set bad)) (active_connections w)"
  by (simp add: broadcast_def deliveries_deliver_all)

lemma db_broadcast: "db (broadcast bad p w) = db w"
  by (simp add: broadcast_def db_deliver_all)

lemma active_broadcast:
  "active_connections (broadcast bad p w) = filter (\<lambda>h. h \<notin> set bad) (active_connections w)"
  unfolding broadcast_def active_deliver_all by (rule filter_cong) auto

lemma rows_failed_insert: "rows (failed_insert e s) = rows s"
  by (simp add: failed_insert_def)

lemma persist_cases:
  "db_add_commit_refresh e u c s = (r, s') \<Longrightarrow>
     (\<exists>x. r = Inl x \<and> rows s' = rows s \<and> next_id s \<le> next_id s') \<or>
     (\<exists>m. (r = Inr m \<or> r = Inl OperationalError) \<and> msg_id m = next_id s \<and>
          created_at m = now e \<and> rows s' = rows s @ [m] \<and> next_id s' = next_id s + 1 \<and>
          next_id s \<le> INT_MAX)"
  by (auto simp: db_add_commit_refresh_def failed_insert_def Let_def
           split: sum.splits if_splits)

lemma persist_ok:
  "length u \<le> 100 \<Longrightarrow> db_ok e \<Longrightarrow> refresh_ok e \<Longrightarrow> next_id s \<le> INT_MAX \<Longrightarrow>
   db_add_commit_refresh e (JStr u) (JStr c) s =
     (Inr \<lparr>msg_id = next_id s, username = u, content = c, created_at = now e\<rparr>,
      \<lparr>rows = rows s @ [\<lparr>msg_id = next_id s, username = u, content = c, created_at = now e\<rparr>],
         next_id = next_id s + 1\<rparr>)"
  by (simp add: db_add_commit_refresh_def upgrade_username_def upgrade_content_def Let_def)

section \<open>Empty content\<close>

text \<open>
  Claim C1, as far as the code goes: for every inbound JSON object whose content field
  is the empty string, the pass ends at \<open>continue\<close> with the world as it was (no row, the
  sequence untouched, no delivery attempted) and the session loop goes on with the next
  payload. The test is Python's truth value, so this does not extend to content made of
  white space, which is stored and broadcast like any other text.
\<close>

theorem empty_content_is_skipped:
  assumes "map_of kvs ''content'' = Some (JStr [])"
  shows "loop_body e (Text (JObj kvs)) w = (Skipped, w) \<and>
         session_loop h ((e, Text (JObj kvs)) # evs) w = session_loop h evs w"
  using assms by (simp add: loop_body_def)

theorem empty_content_is_skipped_witness:
  "map_of [(''content'', JStr [])] ''content'' = Some (JStr []) \<and>
   loop_body env_ok (Text (JObj [(''content'', JStr [])])) one_client = (Skipped, one_client) \<and>
   session_loop 0 [(env_ok, Text (JObj [(''content'', JStr [])]))] one_client = (Active, one_client)"
  using empty_content_is_skipped [of "[(''content'', JStr [])]" env_ok one_client 0 "[]"]
  by simp

text \<open>
  Content of one space, sent by the only connected client: a row with id 1 is stored
  and a delivery to client 0 is made.
\<close>

theorem whitespace_content_counterexample:
  "rows (db (snd (loop_body env_ok (Text (JObj [(''content'', JStr '' '')])) one_client))) =
     [\<lparr>msg_id = 1, username = ''Anonymous'', content = '' '', created_at = t0\<rparr>] \<and>
   map fst (deliveries (snd (loop_body env_ok (Text (JObj [(''content'', JStr '' '')])) one_client))) = [0]"
  by (simp add: loop_body_def db_add_commit_refresh_def upgrade_username_def upgrade_content_def
        env_ok_def one_client_eq INT_MAX_def deliveries_broadcast db_broadcast Let_def)

section \<open>What ends a session\<close>




section \<open>The default username\<close>

text \<open>
  Claim C3, as far as the code goes: for every inbound JSON object without a username
  key, with content a non-empty string, when the database carries the commit out, the
  message is stored and handed to the broadcast with username \<open>Anonymous\<close>. The default
  of \<open>data.get\<close> is used for an absent key only: a username that is present and empty
  is stored as it is.
\<close>

theorem absent_username_is_anonymous:
  assumes "map_of kvs ''username'' = None"
    and "map_of kvs ''content'' = Some (JStr c)" and "c \<noteq> []"
    and "db_ok e" and "refresh_ok e" and "next_id (db w) \<le> INT_MAX"
  shows "\<exists>m. username m = ''Anonymous'' \<and> content m = c \<and>
           loop_body e (Text (JObj kvs)) w =
             (Broadcast m,
              broadcast (broken e) (to_dict m)
                (w\<lparr>db := \<lparr>rows = rows (db w) @ [m], next_id = next_id (db w) + 1\<rparr>\<rparr>))"
proof -
  have "db_add_commit_refresh e (JStr ''Anonymous'') (JStr c) (db w) =
     (Inr \<lparr>msg_id = next_id (db w), username = ''Anonymous'', content = c, created_at = now e\<rparr>,
      \<lparr>rows = rows (db w) @ [\<lparr>msg_id = next_id (db w), username = ''Anonymous'', content = c, created_at = now e\<rparr>],
         next_id = next_id (db w) + 1\<rparr>)"
    using assms by (intro persist_ok) simp_all
  then have "loop_body e (Text (JObj kvs)) w =
     (Broadcast \<lparr>msg_id = next_id (db w), username = ''Anonymous'', content = c, created_at = now e\<rparr>,
      broadcast (broken e) (to_dict \<lparr>msg_id = next_id (db w), username = ''Anonymous'', content = c, created_at = now e\<rparr>)
        (w\<lparr>db := \<lparr>rows = rows (db w) @ [\<lparr>msg_id = next_id (db w), username = ''Anonymous'', content = c, created_at = now e\<rparr>],
         next_id = next_id (db w) + 1\<rparr>\<rparr>))"
    using assms by (simp add: loop_body_def)
  then show ?thesis
    by (intro exI [of _ "\<lparr>msg_id = next_id (db w), username = ''Anonymous'', content = c, created_at = now e\<rparr>"]) simp
qed

theorem absent_username_is_anonymous_witness:
  "\<exists>m. username m = ''Anonymous'' \<and> content m = ''hi'' \<and>
      loop_body env_ok (Text (JObj [(''content'', JStr ''hi'')])) one_client =
        (Broadcast m,
         broadcast [] (to_dict m)
           (one_client\<lparr>db := \<lparr>rows = [m], next_id = 2\<rparr>\<rparr>))"
proof -
  have "map_of [(''content'', JStr ''hi'')] ''username'' = None" by simp
  moreover have "map_of [(''content'', JStr ''hi'')] ''content'' = Some (JStr ''hi'')" by simp
  moreover have "''hi'' \<noteq> []" by simp
  moreover have "db_ok env_ok" "refresh_ok env_ok" by (simp_all add: env_ok_def)
  moreover have "next_id (db one_client) \<le> INT_MAX" by (simp add: one_client_eq INT_MAX_def)
  ultimately obtain m where "username m = ''Anonymous''" "content m = ''hi''"
    "loop_body env_ok (Text (JObj [(''content'', JStr ''hi'')])) one_client =
      (Broadcast m, broadcast (broken env_ok) (to_dict m)
        (one_client\<lparr>db := \<lparr>rows = rows (db one_client) @ [m], next_id = next_id (db one_client) + 1\<rparr>\<rparr>))"
    using absent_username_is_anonymous [of "[(''content'', JStr ''hi'')]" "''hi''" env_ok one_client]
    by blast
  moreover have "broken env_ok = []" by (simp add: env_ok_def)
  moreover have "rows (db one_client) = []" "next_id (db one_client) = 1"
    by (simp_all add: one_client_eq)
  ultimately show ?thesis by (intro exI [of _ m]) simp
qed

text \<open>An empty username together with content \<open>hi\<close>: the stored username is empty.\<close>

theorem empty_username_counterexample:
  "map username (rows (db (snd (loop_body env_ok
      (Text (JObj [(''username'', JStr []), (''content'', JStr ''hi'')])) one_client)))) = [[]]"
  by (simp add: loop_body_def persist_ok one_client_eq env_ok_def INT_MAX_def db_broadcast)

section \<open>Persist, then broadcast\<close>

lemma loop_body_Broadcast:
  assumes "loop_body e f w = (Broadcast m, w')"
  shows "rows (db w') = rows (db w) @ [m] \<and> msg_id m = next_id (db w) \<and> created_at m = now e \<and>
        deliveries w' =
          deliveries w @ map (\<lambda>h. (h, to_dict m, h \<notin> set (broken e))) (active_connections w)"
proof -
  from assms obtain data u c s where
    "db_add_commit_refresh e u c (db w) = (Inr m, s)"
    "w' = broadcast (broken e) (to_dict m) (w\<lparr>db := s\<rparr>)"
    by (auto simp: loop_body_def split: sum.splits if_splits prod.splits)
  moreover from this(1) have "rows s = rows (db w) @ [m] \<and> msg_id m = next_id (db w) \<and> created_at m = now e"
    by (auto dest: persist_cases)
  ultimately show ?thesis
    by (simp add: deliveries_broadcast db_broadcast)
qed

lemma loop_body_Skipped: "loop_body e f w = (Skipped, w') \<Longrightarrow> w' = w"
  by (auto simp: loop_body_def split: sum.splits if_splits prod.splits)

lemma loop_body_Raised:
  assumes "loop_body e f w = (Raised x, w')"
  shows "deliveries w' = deliveries w \<and> active_connections w' = active_connections w"
  using assms by (auto simp: loop_body_def split: sum.splits if_splits prod.splits)

text \<open>
  Claim C4: a pass of the loop body that reaches the broadcast has first appended the
  message to the table, with the id taken from the sequence and the timestamp from the
  clock, and every delivery it attempts carries that message. In every other pass no
  delivery is attempted. In particular, when the persistence call fails, the pass raises
  that error without a broadcast.
\<close>

theorem broadcast_only_after_persist:
  "(case loop_body e f w of
      (Broadcast m, w') \<Rightarrow>
        rows (db w') = rows (db w) @ [m] \<and> msg_id m = next_id (db w) \<and> created_at m = now e \<and>
        deliveries w' =
          deliveries w @ map (\<lambda>h. (h, to_dict m, h \<notin> set (broken e))) (active_connections w)
    | (Skipped, w') \<Rightarrow> w' = w
    | (Raised x, w') \<Rightarrow>
        deliveries w' = deliveries w \<and> active_connections w' = active_connections w) \<and>
   (receive_json f = Inr data \<and> dict_get data ''username'' (JStr ''Anonymous'') = Inr u \<and>
    dict_get data ''content'' (JStr []) = Inr c \<and> py_truthy c \<and>
    db_add_commit_refresh e u c (db w) = (Inl x', s) \<longrightarrow>
      loop_body e f w = (Raised x', w\<lparr>db := s\<rparr>))"
proof -
  obtain out w' where lb: "loop_body e f w = (out, w')"
    by (cases "loop_body e f w")
  have "receive_json f = Inr data \<and> dict_get data ''username'' (JStr ''Anonymous'') = Inr u \<and>
    dict_get data ''content'' (JStr []) = Inr c \<and> py_truthy c \<and>
    db_add_commit_refresh e u c (db w) = (Inl x', s) \<longrightarrow>
      loop_body e f w = (Raised x', w\<lparr>db := s\<rparr>)"
    by (simp add: loop_body_def)
  moreover have "case (out, w') of
      (Broadcast m, w') \<Rightarrow>
        rows (db w') = rows (db w) @ [m] \<and> msg_id m = next_id (db w) \<and> created_at m = now e \<and>
        deliveries w' =
          deliveries w @ map (\<lambda>h. (h, to_dict m, h \<notin> set (broken e))) (active_connections w)
    | (Skipped, w') \<Rightarrow> w' = w
    | (Raised x, w') \<Rightarrow>
        deliveries w' = deliveries w \<and> active_connections w' = active_connections w"
  proof (cases out)
    case Skipped
    then show ?thesis using loop_body_Skipped lb by simp
  next
    case (Broadcast m)
    then show ?thesis using loop_body_Broadcast [of e f w m w'] lb by simp
  next
    case (Raised x)
    then show ?thesis using loop_body_Raised [of e f w x w'] lb by simp
  qed
  ultimately show ?thesis unfolding lb by blast
qed

theorem broadcast_only_after_persist_witness:
  "db_add_commit_refresh env_down (JStr ''Anonymous'') (JStr ''hi'') (db one_client) =
     (Inl OperationalError, db one_client) \<and>
   loop_body env_down (Text (JObj [(''content'', JStr ''hi'')])) one_client =
     (Raised OperationalError, one_client) \<and>
   deliveries one_client = []"
proof -
  have a: "db_add_commit_refresh env_down (JStr ''Anonymous'') (JStr ''hi'') (db one_client) =
     (Inl OperationalError, db one_client)"
    by (simp add: db_add_commit_refresh_def upgrade_username_def upgrade_content_def
          env_down_def failed_insert_def)
  have "loop_body env_down (Text (JObj [(''content'', JStr ''hi'')])) one_client =
     (Raised OperationalError, one_client\<lparr>db := db one_client\<rparr>)"
    using broadcast_only_after_persist
      [where e = env_down and f = "Text (JObj [(''content'', JStr ''hi'')])" and w = one_client
          and data = "JObj [(''content'', JStr ''hi'')]" and u = "JStr ''Anonymous''"
          and c = "JStr ''hi''" and x' = OperationalError and s = "db one_client"] a
    by simp
  then show ?thesis using a by (simp add: one_client_eq)
qed

section \<open>Delivery failures\<close>

lemma persist_ignores_broken:
  "db_add_commit_refresh (e\<lparr>broken := bad\<rparr>) u c s = db_add_commit_refresh e u c s"
  by (simp add: db_add_commit_refresh_def failed_insert_def Let_def split: sum.splits)

text \<open>
  Claim C5, for the broadcast as the spec describes it: over a snapshot of the registry,
  every handle of the snapshot is offered the payload, in order and once; exactly the
  handles on which the delivery fails leave the registry; the table is untouched; and
  the outcome of the pass of the loop body does not depend on which deliveries fail.
\<close>

theorem broadcast_isolates_failures:
  "active_connections (broadcast bad p w) = filter (\<lambda>h. h \<notin> set bad) (active_connections w) \<and>
   deliveries (broadcast bad p w) =
     deliveries w @ map (\<lambda>h. (h, p, h \<notin> set bad)) (active_connections w) \<and>
   db (broadcast bad p w) = db w \<and>
   fst (loop_body (e\<lparr>broken := bad\<rparr>) f w) = fst (loop_body e f w)"
proof -
  have "fst (loop_body (e\<lparr>broken := bad\<rparr>) f w) = fst (loop_body e f w)"
    by (simp add: loop_body_def persist_ignores_broken split: sum.splits prod.splits)
  then show ?thesis
    by (simp add: active_broadcast deliveries_broadcast db_broadcast)
qed

text \<open>Three registered handles, the second one broken.\<close>

theorem broadcast_isolates_failures_witness:
  "active_connections (broadcast [2] JNull
      \<lparr>db = empty_store, active_connections = [1, 2, 3], deliveries = []\<rparr>) = [1, 3] \<and>
   deliveries (broadcast [2] JNull
      \<lparr>db = empty_store, active_connections = [1, 2, 3], deliveries = []\<rparr>) =
     [(1, JNull, True), (2, JNull, False), (3, JNull, True)]"
  using broadcast_isolates_failures
    [of "[2]" JNull "\<lparr>db = empty_store, active_connections = [1, 2, 3], deliveries = []\<rparr>"]
  by simp

section \<open>Ids\<close>

lemma store_inv_persist:
  assumes "store_inv s"
  shows "store_inv (snd (db_add_commit_refresh e u c s))"
proof -
  obtain r s' where p: "db_add_commit_refresh e u c s = (r, s')"
    by (cases "db_add_commit_refresh e u c s")
  from persist_cases [OF p] show ?thesis
  proof
    assume "\<exists>x. r = Inl x \<and> rows s' = rows s \<and> next_id s \<le> next_id s'"
    then show ?thesis
      using assms p by (auto simp: store_inv_def list_all_iff)
  next
    assume "\<exists>m. (r = Inr m \<or> r = Inl OperationalError) \<and> msg_id m = next_id s \<and>
          created_at m = now e \<and> rows s' = rows s @ [m] \<and> next_id s' = next_id s + 1 \<and>
          next_id s \<le> INT_MAX"
    then obtain m where m: "msg_id m = next_id s" "rows s' = rows s @ [m]"
      "next_id s' = next_id s + 1" by blast
    have "msg_id m' < next_id s" if "m' \<in> set (rows s)" for m'
      using assms that by (simp add: store_inv_def list_all_iff)
    then show ?thesis
      using assms p m by (fastforce simp: store_inv_def list_all_iff sorted_wrt_append)
  qed
qed

lemma store_inv_persist_calls: "store_inv s \<Longrightarrow> store_inv (persist_calls cs s)"
  by (induction cs s rule: persist_calls.induct) (simp_all add: store_inv_persist)

lemma strict_sorted_distinct: "sorted_wrt (<) (xs :: int list) \<Longrightarrow> distinct xs"
  by (induction xs) auto

text \<open>
  Claim C6: a persistence call takes no id from the client; a stored message gets the
  next value of the sequence, which is above the id of every row already there, and is
  appended after them. So after any sequence of persistence calls on a table that
  satisfies the invariant, the ids strictly increase along the rows in the order of the
  calls, and no two rows share an id.
\<close>

theorem ids_unique_and_increasing:
  assumes "store_inv s"
  shows "sorted_wrt (<) (map msg_id (rows (persist_calls cs s))) \<and>
         distinct (map msg_id (rows (persist_calls cs s))) \<and>
         (\<forall>e u c m s'. db_add_commit_refresh e u c s = (Inr m, s') \<longrightarrow>
            msg_id m = next_id s \<and> rows s' = rows s @ [m] \<and>
            (\<forall>m' \<in> set (rows s). msg_id m' < msg_id m))"
proof -
  have "store_inv (persist_calls cs s)"
    using assms by (rule store_inv_persist_calls)
  then have a: "sorted_wrt (<) (map msg_id (rows (persist_calls cs s)))"
    by (simp add: store_inv_def)
  have "msg_id m = next_id s \<and> rows s' = rows s @ [m] \<and>
            (\<forall>m' \<in> set (rows s). msg_id m' < msg_id m)"
    if "db_add_commit_refresh e u c s = (Inr m, s')" for e u c m s'
    using persist_cases [OF that] assms by (auto simp: store_inv_def list_all_iff)
  with a strict_sorted_distinct [OF a] show ?thesis by blast
qed

text \<open>From the empty table, the three sample calls leave the ids 1 and 2.\<close>

theorem ids_unique_and_increasing_witness:
  "store_inv empty_store \<and>
   map msg_id (rows (persist_calls sample_calls empty_store)) = [1, 2] \<and>
   sorted_wrt (<) (map msg_id (rows (persist_calls sample_calls empty_store))) \<and>
   distinct (map msg_id (rows (persist_calls sample_calls empty_store)))"
proof -
  have a: "store_inv empty_store"
    by (simp add: store_inv_def empty_store_def)
  have b: "map msg_id (rows (persist_calls sample_calls empty_store)) = [1, 2]"
    by (simp add: sample_calls_def empty_store_def db_add_commit_refresh_def Let_def
          upgrade_username_def upgrade_content_def env_ok_def env_down_def failed_insert_def
          INT_MAX_def)
  show ?thesis
    using ids_unique_and_increasing [OF a, of sample_calls] a b by simp
qed

section \<open>History\<close>

text \<open>
  Claim C7: in every state of the table, the history endpoint returns the rows of the
  table, all of them and nothing else, ordered by \<open>created_at\<close> ascending, each one
  through \<open>to_dict\<close>, the function that also builds the broadcast payload; the table is
  left as it was.
\<close>

theorem get_messages_all_in_order:
  "fst (get_messages s) = map to_dict (select_ordered s) \<and>
   mset (select_ordered s) = mset (rows s) \<and>
   sorted (map (\<lambda>m. dt_key (created_at m)) (select_ordered s)) \<and>
   snd (get_messages s) = s"
  by (simp add: get_messages_def select_ordered_def)

text \<open>Two rows stored against the order of their timestamps come back by timestamp.\<close>

theorem get_messages_all_in_order_witness:
  "fst (get_messages
     \<lparr>rows = [\<lparr>msg_id = 1, username = ''alice'', content = ''hi'', created_at = t0\<rparr>,
              \<lparr>msg_id = 2, username = ''bob'', content = ''yo'', created_at = t0\<lparr>year := 2025\<rparr>\<rparr>],
        next_id = 3\<rparr>) =
   map to_dict
     [\<lparr>msg_id = 2, username = ''bob'', content = ''yo'', created_at = t0\<lparr>year := 2025\<rparr>\<rparr>,
      \<lparr>msg_id = 1, username = ''alice'', content = ''hi'', created_at = t0\<rparr>]"
proof -
  have "select_ordered
     \<lparr>rows = [\<lparr>msg_id = 1, username = ''alice'', content = ''hi'', created_at = t0\<rparr>,
              \<lparr>msg_id = 2, username = ''bob'', content = ''yo'', created_at = t0\<lparr>year := 2025\<rparr>\<rparr>],
        next_id = 3\<rparr> =
     [\<lparr>msg_id = 2, username = ''bob'', content = ''yo'', created_at = t0\<lparr>year := 2025\<rparr>\<rparr>,
      \<lparr>msg_id = 1, username = ''alice'', content = ''hi'', created_at = t0\<rparr>]"
    by (simp add: select_ordered_def dt_key_def t0_def)
  with get_messages_all_in_order
     [of "\<lparr>rows = [\<lparr>msg_id = 1, username = ''alice'', content = ''hi'', created_at = t0\<rparr>,
              \<lparr>msg_id = 2, username = ''bob'', content = ''yo'', created_at = t0\<lparr>year := 2025\<rparr>\<rparr>],
        next_id = 3\<rparr>"]
  show ?thesis by simp
qed

section \<open>The payload\<close>

lemma isoformat_t0: "isoformat t0 = ''2026-02-15T15:32:07.132806''"
  by (simp add: isoformat_def t0_def zero_pad_def dec.simps digit_char_def)

text \<open>
  Claim C8: the payload built from a stored message is a JSON object with exactly the
  four keys \<open>id\<close>, \<open>username\<close>, \<open>content\<close> and \<open>created_at\<close>, holding an integer,
  two strings and a string of the shape \<open>YYYY-MM-DDTHH:MM:SS\<close> with an optional
  \<open>.ffffff\<close>, for every timestamp whose fields are in the ranges of a \<open>datetime\<close>.
\<close>

theorem to_dict_shape:
  assumes "datetime_fields_ok (created_at m)"
  shows "\<exists>t. to_dict m =
           JObj [(''id'', JInt (msg_id m)), (''username'', JStr (username m)),
                 (''content'', JStr (content m)), (''created_at'', JStr t)] \<and>
         is_iso8601 t"
  using assms by (simp add: to_dict_def isoformat_iso8601)

theorem to_dict_shape_witness:
  "datetime_fields_ok t0 \<and>
   to_dict \<lparr>msg_id = 1, username = ''alice'', content = ''hi'', created_at = t0\<rparr> =
     JObj [(''id'', JInt 1), (''username'', JStr ''alice''), (''content'', JStr ''hi''),
           (''created_at'', JStr ''2026-02-15T15:32:07.132806'')] \<and>
   is_iso8601 ''2026-02-15T15:32:07.132806''"
proof -
  have a: "datetime_fields_ok t0"
    by (simp add: datetime_fields_ok_def t0_def)
  then have b: "datetime_fields_ok (created_at \<lparr>msg_id = 1, username = ''alice'', content = ''hi'', created_at = t0\<rparr>)"
    by simp
  have c: "to_dict \<lparr>msg_id = 1, username = ''alice'', content = ''hi'', created_at = t0\<rparr> =
     JObj [(''id'', JInt 1), (''username'', JStr ''alice''), (''content'', JStr ''hi''),
           (''created_at'', JStr ''2026-02-15T15:32:07.132806'')]"
    by (simp add: to_dict_def isoformat_t0)
  from to_dict_shape [OF b] obtain t where
    "to_dict \<lparr>msg_id = 1, username = ''alice'', content = ''hi'', created_at = t0\<rparr> =
       JObj [(''id'', JInt 1), (''username'', JStr ''alice''), (''content'', JStr ''hi''),
             (''created_at'', JStr t)]" and t: "is_iso8601 t"
    by auto
  with c have "t = ''2026-02-15T15:32:07.132806''"
    by simp
  with t a c show ?thesis
    by blast
qed

section \<open>The content test\<close>

text \<open>
  Claim C9: a JSON object received on the WebSocket is dropped exactly when the value
  of its content key, or the empty string when the key is missing, is falsy in Python;
  the empty string, \<open>null\<close>, 0, \<open>false\<close> and the empty array are falsy. The number 5 is
  truthy: a payload with content 5 passes the test, and the pass continues with the
  persistence call on that number, whose result decides the outcome.
\<close>

theorem dropped_iff_content_falsy:
  "(fst (loop_body e (Text (JObj kvs)) w) = Skipped) =
     (\<not> py_truthy (case map_of kvs ''content'' of None \<Rightarrow> JStr [] | Some v \<Rightarrow> v)) \<and>
   list_all (\<lambda>v. \<not> py_truthy v) [JStr [], JNull, JInt 0, JBool False, JArr []] \<and>
   py_truthy (JInt 5) \<and>
   loop_body e (Text (JObj [(''content'', JInt 5)])) w =
     (case db_add_commit_refresh e (JStr ''Anonymous'') (JInt 5) (db w) of
        (Inl x, s) \<Rightarrow> (Raised x, w\<lparr>db := s\<rparr>)
      | (Inr m, s) \<Rightarrow> (Broadcast m, broadcast (broken e) (to_dict m) (w\<lparr>db := s\<rparr>)))"
proof -
  have "(fst (loop_body e (Text (JObj kvs)) w) = Skipped) =
     (\<not> py_truthy (case map_of kvs ''content'' of None \<Rightarrow> JStr [] | Some v \<Rightarrow> v))"
    by (simp add: loop_body_def split: prod.splits sum.splits)
  moreover have "loop_body e (Text (JObj [(''content'', JInt 5)])) w =
     (case db_add_commit_refresh e (JStr ''Anonymous'') (JInt 5) (db w) of
        (Inl x, s) \<Rightarrow> (Raised x, w\<lparr>db := s\<rparr>)
      | (Inr m, s) \<Rightarrow> (Broadcast m, broadcast (broken e) (to_dict m) (w\<lparr>db := s\<rparr>)))"
    by (simp add: loop_body_def)
  ultimately show ?thesis by simp
qed

text \<open>
  A payload without content is skipped; with content 5 the persistence call is made and
  the storage layer refuses the number.
\<close>

theorem dropped_iff_content_falsy_witness:
  "fst (loop_body env_ok (Text (JObj [(''username'', JStr ''bob'')])) one_client) = Skipped \<and>
   loop_body env_ok (Text (JObj [(''content'', JInt 5)])) one_client =
     (Raised DataError, one_client)"
proof -
  have a: "db_add_commit_refresh env_ok (JStr ''Anonymous'') (JInt 5) (db one_client) =
      (Inl DataError, db one_client)"
    by (simp add: db_add_commit_refresh_def upgrade_username_def upgrade_content_def
          failed_insert_def env_ok_def)
  have b: "map_of [(''username'', JStr ''bob'')] ''content'' = None"
    by simp
  show ?thesis
    using dropped_iff_content_falsy [of env_ok "[(''username'', JStr ''bob'')]" one_client]
      dropped_iff_content_falsy [of env_ok "[]" one_client]
    unfolding a b by simp
qed

section \<open>The length of the username\<close>

text \<open>
  Claim C10: the username column is declared with length 100 in the model class and in
  the migration, and a persistence call whose username is longer than 100 characters,
  the excess not being all spaces, is refused by the storage layer: no row is added and
  the pass of the loop body raises.
\<close>

theorem long_username_rejected:
  "Message_username = String 100 \<and> upgrade_username = String 100 \<and>
   (100 < length u \<and> \<not> list_all (\<lambda>c. c = CHR '' '') (drop 100 u) \<longrightarrow>
      fst (db_add_commit_refresh e (JStr u) c s) = Inl DataError \<and>
      rows (snd (db_add_commit_refresh e (JStr u) c s)) = rows s \<and>
      fst (loop_body e (Text (JObj [(''username'', JStr u), (''content'', JStr ''hi'')])) w) =
        Raised DataError)"
  by (simp add: Message_username_def upgrade_username_def db_add_commit_refresh_def
        rows_failed_insert loop_body_def)

text \<open>A username of 101 letters.\<close>

theorem long_username_rejected_witness:
  "100 < length (replicate 101 (CHR ''a'')) \<and>
   \<not> list_all (\<lambda>c. c = CHR '' '') (drop 100 (replicate 101 (CHR ''a''))) \<and>
   fst (db_add_commit_refresh env_ok (JStr (replicate 101 (CHR ''a''))) (JStr ''hi'') empty_store) =
     Inl DataError \<and>
   rows (snd (db_add_commit_refresh env_ok (JStr (replicate 101 (CHR ''a''))) (JStr ''hi'') empty_store)) = []"
  using long_username_rejected [of "replicate 101 (CHR ''a'')" env_ok "JStr ''hi''" empty_store]
  by (simp add: empty_store_def)

end
